theory Spec2Isabelle
  imports Complex_Main
begin

section \<open>Python values used by the driver\<close>

text \<open>
  The driver \<^verbatim>\<open>LambdaZup\<close> (src/lambda\_zup.py) talks to a TDK-Lambda ZUP power
  supply over a serial line. Its methods raise Python exceptions; the model returns them
  as values of type \<open>error\<close>.
\<close>

datatype error = AssertionError | IndexError | ValueError | TypeError | KeyError

text \<open>
  A Python float is modelled by the rational number it denotes (every finite binary64
  value is a rational), with negative zero, the two infinities and NaN as constructors of
  their own. \<open>Flt 0\<close> is positive zero.
\<close>

datatype pyfloat = Flt rat | NegZero | PInf | NInf | NaN

datatype pyval = PyNone | PyBool bool | PyInt int | PyFloat pyfloat | PyStr string

text \<open>
  The numeric reading of a value: \<^verbatim>\<open>bool\<close> is a subclass of \<^verbatim>\<open>int\<close>, and an
  \<^verbatim>\<open>int\<close> is compared with a float by its exact value.
\<close>

fun num_of :: "pyval \<Rightarrow> pyfloat option" where
  "num_of (PyBool b) = Some (Flt (if b then 1 else 0))"
| "num_of (PyInt n) = Some (Flt (of_int n))"
| "num_of (PyFloat f) = Some f"
| "num_of PyNone = None"
| "num_of (PyStr s) = None"

text \<open>\<^verbatim>\<open>a <= b\<close> on floats: false as soon as one side is NaN.\<close>

fun float_le :: "pyfloat \<Rightarrow> pyfloat \<Rightarrow> bool" where
  "float_le NaN b = False"
| "float_le a NaN = False"
| "float_le NInf b = True"
| "float_le a PInf = True"
| "float_le PInf b = False"
| "float_le a NInf = False"
| "float_le (Flt x) (Flt y) = (x \<le> y)"
| "float_le (Flt x) NegZero = (x \<le> 0)"
| "float_le NegZero (Flt y) = (0 \<le> y)"
| "float_le NegZero NegZero = True"

text \<open>\<^verbatim>\<open>a == b\<close> on floats: NaN equals nothing, the two zeros are equal.\<close>

fun float_eq :: "pyfloat \<Rightarrow> pyfloat \<Rightarrow> bool" where
  "float_eq NaN b = False"
| "float_eq a NaN = False"
| "float_eq (Flt x) (Flt y) = (x = y)"
| "float_eq (Flt x) NegZero = (x = 0)"
| "float_eq NegZero (Flt y) = (y = 0)"
| "float_eq NegZero NegZero = True"
| "float_eq PInf PInf = True"
| "float_eq NInf NInf = True"
| "float_eq a b = False"

text \<open>
  \<^verbatim>\<open>a == b\<close> on the values above: numbers compare by value across bool, int and
  float; a string equals only an equal string; None equals only None.
\<close>

definition py_eq :: "pyval \<Rightarrow> pyval \<Rightarrow> bool" where
  "py_eq a b =
     (case (num_of a, num_of b) of
        (Some x, Some y) \<Rightarrow> float_eq x y
      | (Some x, None) \<Rightarrow> False
      | (None, Some y) \<Rightarrow> False
      | (None, None) \<Rightarrow>
          (case (a, b) of
             (PyStr s, PyStr t) \<Rightarrow> s = t
           | (PyNone, PyNone) \<Rightarrow> True
           | _ \<Rightarrow> False))"

text \<open>\<^verbatim>\<open>x in [a, b, c]\<close>: some element equals \<open>x\<close>.\<close>

definition py_in :: "pyval \<Rightarrow> pyval list \<Rightarrow> bool" where
  "py_in x xs = list_ex (\<lambda>y. py_eq x y) xs"

section \<open>Number formatting\<close>

definition digit_char :: "nat \<Rightarrow> char" where
  "digit_char d = ''0123456789'' ! d"

fun digits_of_nat :: "nat \<Rightarrow> string" where
  "digits_of_nat n =
     (if n < 10 then [digit_char n]
      else digits_of_nat (n div 10) @ [digit_char (n mod 10)])"

declare digits_of_nat.simps [simp del]

text \<open>
  \<^verbatim>\<open>"%02i" % n\<close>: the decimal digits of \<open>n\<close>, zero-padded after the sign to two
  characters in all.
\<close>

definition fmt_02i :: "int \<Rightarrow> string" where
  "fmt_02i n =
     (let sgn = (if n < 0 then ''-'' else '''');
          ds = digits_of_nat (nat \<bar>n\<bar>)
      in sgn @ replicate (2 - (length sgn + length ds)) CHR ''0'' @ ds)"

text \<open>
  Python renders a float in \<^verbatim>\<open>f\<close> presentation by rounding its exact value to the
  requested number of decimals, ties to the even neighbour.
\<close>

definition round_half_even :: "rat \<Rightarrow> nat" where
  "round_half_even x =
     (let q = nat \<lfloor>x\<rfloor>; r = x - of_int \<lfloor>x\<rfloor>
      in if 1 / 2 < r then q + 1
         else if r = 1 / 2 \<and> odd q then q + 1
         else q)"

definition frac_digits :: "nat \<Rightarrow> nat \<Rightarrow> string" where
  "frac_digits p m = replicate (p - length (digits_of_nat m)) CHR ''0'' @ digits_of_nat m"

definition fixed_digits :: "nat \<Rightarrow> rat \<Rightarrow> string" where
  "fixed_digits p x =
     (let n = round_half_even (x * 10 ^ p)
      in digits_of_nat (n div 10 ^ p) @
         (if p = 0 then [] else CHR ''.'' # frac_digits p (n mod 10 ^ p)))"

text \<open>
  A format specification \<^verbatim>\<open>0W.Pf\<close> (\<^verbatim>\<open>"{:05.3f}"\<close>, \<^verbatim>\<open>"%1.2f"\<close>) is kept in
  parsed form: the zero flag, the minimum width \<open>W\<close> and the precision \<open>P\<close>.
\<close>

record fspec =
  zero_flag :: bool
  width :: nat
  prec :: nat

definition float_sign :: "pyfloat \<Rightarrow> bool" where
  "float_sign f = (case f of Flt x \<Rightarrow> x < 0 | NegZero \<Rightarrow> True | NInf \<Rightarrow> True | _ \<Rightarrow> False)"

definition format_f :: "fspec \<Rightarrow> pyfloat \<Rightarrow> string" where
  "format_f fs f =
     (let sgn = (if float_sign f then ''-'' else '''');
          body = (case f of
                    Flt x \<Rightarrow> fixed_digits (prec fs) \<bar>x\<bar>
                  | NegZero \<Rightarrow> fixed_digits (prec fs) 0
                  | PInf \<Rightarrow> ''inf''
                  | NInf \<Rightarrow> ''inf''
                  | NaN \<Rightarrow> ''nan'');
          pad = width fs - (length sgn + length body)
      in if zero_flag fs then sgn @ replicate pad CHR ''0'' @ body
         else replicate pad CHR '' '' @ sgn @ body)"

text \<open>
  The table \<^verbatim>\<open>v_format_strs\<close>: rated maximum voltage to the format of a voltage
  argument.
\<close>

definition v_format_strs :: "int \<rightharpoonup> fspec" where
  "v_format_strs = map_of
     [(6,   \<lparr>zero_flag = True, width = 5, prec = 3\<rparr>),
      (10,  \<lparr>zero_flag = True, width = 6, prec = 3\<rparr>),
      (20,  \<lparr>zero_flag = True, width = 6, prec = 3\<rparr>),
      (36,  \<lparr>zero_flag = True, width = 5, prec = 2\<rparr>),
      (60,  \<lparr>zero_flag = True, width = 5, prec = 2\<rparr>),
      (80,  \<lparr>zero_flag = True, width = 5, prec = 2\<rparr>),
      (120, \<lparr>zero_flag = True, width = 6, prec = 2\<rparr>)]"

section \<open>The serial transport and the driver object\<close>

text \<open>
  The serial port is modelled by what has been written to it, write by write, and by the
  lines the device will answer, one per \<^verbatim>\<open>readline\<close>. A \<^verbatim>\<open>readline\<close> that times
  out returns the empty string. Replies are ASCII; \<^verbatim>\<open>encode\<close> and \<^verbatim>\<open>decode\<close> are
  the identity on them. \<^verbatim>\<open>time.sleep\<close> and the debug printing have no effect on the
  state and are left out.
\<close>

record transport =
  written :: "string list"
  incoming :: "string list"

definition ser_write :: "transport \<Rightarrow> string \<Rightarrow> transport" where
  "ser_write t s = t\<lparr>written := written t @ [s]\<rparr>"

definition ser_readline :: "transport \<Rightarrow> string \<times> transport" where
  "ser_readline t =
     (case incoming t of
        [] \<Rightarrow> ([], t)
      | l # ls \<Rightarrow> (l, t\<lparr>incoming := ls\<rparr>))"

text \<open>
  The attributes of a \<^verbatim>\<open>LambdaZup\<close> object. An attribute that a method creates on
  its first assignment is \<open>None\<close> until then. The attribute \<^verbatim>\<open>output\<close> is the
  field \<open>output_on\<close>.
\<close>

record zup =
  address :: int
  always_send_address :: bool
  ser :: transport
  max_voltage :: int
  max_current :: pyfloat
  voltage_actual :: "pyfloat option"
  voltage_setp :: "pyfloat option"
  current_actual :: "pyfloat option"
  current_setp :: "pyfloat option"
  operational_status_register :: "string option"
  alarm_status_register :: "string option"
  programming_status_register :: "string option"
  cc_cv :: "bool option"
  foldback_armed :: "bool option"
  auto_restart_mode :: "bool option"
  output_on :: "bool option"
  foldback_srq :: "bool option"
  over_voltage_srq :: "bool option"
  over_temp_srq :: "bool option"
  alarm_active :: "bool option"
  alarm_ovp :: "bool option"
  alarm_otp :: "bool option"
  alarm_ac_fail :: "bool option"
  alarm_foldback :: "bool option"
  alarm_prog :: "bool option"
  prog_err_wrong_command :: "bool option"
  prog_err_buffer_overflow :: "bool option"
  prog_err_wrong_voltage :: "bool option"
  prog_err_wrong_current :: "bool option"

section \<open>Sending a command and reading a reply\<close>

text \<open>
  \<^verbatim>\<open>LambdaZup._write\<close>. \<^verbatim>\<open>cmd[0]\<close> on an empty string raises IndexError; the
  two assertions follow; only then is anything written.
\<close>

definition zup_write :: "zup \<Rightarrow> string \<Rightarrow> (error + unit) \<times> zup" where
  "zup_write self cmd =
     (case cmd of
        [] \<Rightarrow> (Inl IndexError, self)
      | c # cs \<Rightarrow>
          if c \<noteq> CHR '':'' then (Inl AssertionError, self)
          else if last cmd \<noteq> CHR '';'' then (Inl AssertionError, self)
          else
            let self1 =
                  (if always_send_address self
                   then self\<lparr>ser := ser_write (ser self) ('':ADR'' @ fmt_02i (address self) @ '';'')\<rparr>
                   else self)
            in (Inr (), self1\<lparr>ser := ser_write (ser self1) cmd\<rparr>))"

text \<open>
  \<^verbatim>\<open>str.rstrip()\<close> removes trailing white space; among the code points below 256
  these are the ones Python counts as white space.
\<close>

definition is_space :: "char \<Rightarrow> bool" where
  "is_space c =
     (let n = (of_char c :: nat)
      in (9 \<le> n \<and> n \<le> 13) \<or> (28 \<le> n \<and> n \<le> 32) \<or> n = 133 \<or> n = 160)"

definition rstrip :: "string \<Rightarrow> string" where
  "rstrip s = rev (dropWhile is_space (rev s))"

text \<open>\<^verbatim>\<open>LambdaZup._ask\<close>.\<close>

definition zup_ask :: "zup \<Rightarrow> string \<Rightarrow> (error + string) \<times> zup" where
  "zup_ask self cmd =
     (case zup_write self cmd of
        (Inl e, s) \<Rightarrow> (Inl e, s)
      | (Inr u, s) \<Rightarrow>
          (case ser_readline (ser s) of
             (resp, t) \<Rightarrow> (Inr (rstrip resp), s\<lparr>ser := t\<rparr>)))"

section \<open>Initialization and output control\<close>

text \<open>
  \<^verbatim>\<open>LambdaZup.set_address\<close>. The argument is \<^verbatim>\<open>None\<close> (the default) or an
  integer; \<^verbatim>\<open>not adr\<close> holds for \<^verbatim>\<open>None\<close> and for \<^verbatim>\<open>0\<close>.
\<close>

definition set_address :: "zup \<Rightarrow> int option \<Rightarrow> (error + int) \<times> zup" where
  "set_address self adr =
     (let adr1 = (case adr of
                    None \<Rightarrow> address self
                  | Some a \<Rightarrow> if a = 0 then address self else a)
      in if \<not> (0 < adr1 \<and> adr1 < 32) then (Inl AssertionError, self)
         else
           (case zup_write self ('':ADR'' @ fmt_02i adr1 @ '';'') of
              (Inl e, s) \<Rightarrow> (Inl e, s)
            | (Inr u, s) \<Rightarrow> (Inr adr1, s\<lparr>address := adr1\<rparr>)))"

text \<open>
  The range check \<^verbatim>\<open>assert 0 <= volt <= self.max_voltage\<close> shared by the voltage
  setters: comparing a value that is not a number raises TypeError.
\<close>

definition assert_in_range :: "pyval \<Rightarrow> int \<Rightarrow> error + pyfloat" where
  "assert_in_range volt hi =
     (case num_of volt of
        None \<Rightarrow> Inl TypeError
      | Some v \<Rightarrow>
          if float_le (Flt 0) v \<and> float_le v (Flt (of_int hi)) then Inr v
          else Inl AssertionError)"

text \<open>\<^verbatim>\<open>LambdaZup.set_voltage\<close>.\<close>

definition set_voltage :: "zup \<Rightarrow> pyval \<Rightarrow> (error + unit) \<times> zup" where
  "set_voltage self volt =
     (case assert_in_range volt (max_voltage self) of
        Inl e \<Rightarrow> (Inl e, self)
      | Inr v \<Rightarrow>
          (case v_format_strs (max_voltage self) of
             None \<Rightarrow> (Inl KeyError, self)
           | Some fmt_str \<Rightarrow> zup_write self ('':VOL'' @ format_f fmt_str v @ '';'')))"

text \<open>
  \<^verbatim>\<open>LambdaZup.set_over_voltage_protection\<close> and
  \<^verbatim>\<open>LambdaZup.set_under_voltage_protection\<close>, both with the pattern \<^verbatim>\<open>"%1.2f"\<close>.
\<close>

definition fmt_1_2f :: fspec where
  "fmt_1_2f = \<lparr>zero_flag = False, width = 1, prec = 2\<rparr>"

definition set_over_voltage_protection :: "zup \<Rightarrow> pyval \<Rightarrow> (error + unit) \<times> zup" where
  "set_over_voltage_protection self volt =
     (case assert_in_range volt (max_voltage self) of
        Inl e \<Rightarrow> (Inl e, self)
      | Inr v \<Rightarrow> zup_write self ('':OVP'' @ format_f fmt_1_2f v @ '';''))"

definition set_under_voltage_protection :: "zup \<Rightarrow> pyval \<Rightarrow> (error + unit) \<times> zup" where
  "set_under_voltage_protection self volt =
     (case assert_in_range volt (max_voltage self) of
        Inl e \<Rightarrow> (Inl e, self)
      | Inr v \<Rightarrow> zup_write self ('':UVP'' @ format_f fmt_1_2f v @ '';''))"

text \<open>\<^verbatim>\<open>LambdaZup.get_output\<close>.\<close>

definition get_output :: "zup \<Rightarrow> (error + bool) \<times> zup" where
  "get_output self =
     (case zup_ask self '':OUT?;'' of
        (Inl e, s) \<Rightarrow> (Inl e, s)
      | (Inr out, s) \<Rightarrow>
          if take 2 out \<noteq> ''OT'' then (Inl AssertionError, s)
          else if out = ''OT1'' then (Inr True, s\<lparr>output_on := Some True\<rparr>)
          else if out = ''OT0'' then (Inr False, s\<lparr>output_on := Some False\<rparr>)
          else (Inl ValueError, s))"

text \<open>
  \<^verbatim>\<open>LambdaZup.set_foldback_protection\<close>. There is no \<^verbatim>\<open>else\<close> branch: a value in
  none of the three lists falls through and the method returns.
\<close>

definition set_foldback_protection :: "zup \<Rightarrow> pyval \<Rightarrow> (error + unit) \<times> zup" where
  "set_foldback_protection self fld =
     (if py_in fld [PyBool True, PyInt 1, PyStr ''arm''] then zup_write self '':FLD1;''
      else if py_in fld [PyBool False, PyInt 0, PyStr ''release''] then zup_write self '':FLD0;''
      else if py_in fld [PyInt 2, PyStr ''cancel''] then zup_write self '':FLD2;''
      else (Inr (), self))"

section \<open>The pattern of the complete status reply\<close>

text \<open>
  The regular expression of \<^verbatim>\<open>get_complete_status\<close> is a sequence of the items
  below; none of its groups is nested. \<open>Opt\<close>, \<open>Star\<close> and \<open>Plus\<close> are the greedy
  \<^verbatim>\<open>[..]?\<close>, \<^verbatim>\<open>[..]*\<close> and \<^verbatim>\<open>[..]+\<close> on a character class, \<open>NotAhead\<close> is
  the negative lookahead \<^verbatim>\<open>(?![..])\<close>, \<open>GOpen\<close> and \<open>GClose\<close> are the
  parentheses of a capturing group.
\<close>

datatype re_item =
    Lit char
  | Opt "char list"
  | Star "char list"
  | Plus "char list"
  | NotAhead "char list"
  | GOpen
  | GClose

text \<open>
  The groups captured so far, the latest first, and whether the latest is still open: a
  character consumed while a group is open is part of that group.
\<close>

type_synonym groups = "bool \<times> string list"

fun take_char :: "char \<Rightarrow> groups \<Rightarrow> groups" where
  "take_char c (True, g # gs) = (True, (g @ [c]) # gs)"
| "take_char c st = st"

text \<open>
  Matching at the start of the input, as the backtracking engine of \<^verbatim>\<open>re\<close> does: a
  greedy item first takes a character and gives it back if the rest then fails.
\<close>

fun re_match :: "re_item list \<Rightarrow> string \<Rightarrow> groups \<Rightarrow> string list option" where
  "re_match [] s st = Some (rev (snd st))"
| "re_match (Lit c # r) [] st = None"
| "re_match (Lit c # r) (x # xs) st =
     (if x = c then re_match r xs (take_char x st) else None)"
| "re_match (Opt cs # r) [] st = re_match r [] st"
| "re_match (Opt cs # r) (x # xs) st =
     (if x \<in> set cs
      then (case re_match r xs (take_char x st) of
              Some g \<Rightarrow> Some g
            | None \<Rightarrow> re_match r (x # xs) st)
      else re_match r (x # xs) st)"
| "re_match (Star cs # r) [] st = re_match r [] st"
| "re_match (Star cs # r) (x # xs) st =
     (if x \<in> set cs
      then (case re_match (Star cs # r) xs (take_char x st) of
              Some g \<Rightarrow> Some g
            | None \<Rightarrow> re_match r (x # xs) st)
      else re_match r (x # xs) st)"
| "re_match (Plus cs # r) [] st = None"
| "re_match (Plus cs # r) (x # xs) st =
     (if x \<in> set cs then re_match (Star cs # r) xs (take_char x st) else None)"
| "re_match (NotAhead cs # r) [] st = re_match r [] st"
| "re_match (NotAhead cs # r) (x # xs) st =
     (if x \<in> set cs then None else re_match r (x # xs) st)"
| "re_match (GOpen # r) s st = re_match r s (True, [] # snd st)"
| "re_match (GClose # r) s st = re_match r s (False, snd st)"

text \<open>
  \<^verbatim>\<open>prog.findall(out)[0]\<close> is the groups of the leftmost match: the engine tries
  each start position in turn. \<open>None\<close> stands for the empty list of matches.
\<close>

fun re_search :: "re_item list \<Rightarrow> string \<Rightarrow> string list option" where
  "re_search p [] = re_match p [] (False, [])"
| "re_search p (x # xs) =
     (case re_match p (x # xs) (False, []) of
        Some g \<Rightarrow> Some g
      | None \<Rightarrow> re_search p xs)"

text \<open>Among the code points below 256, \<^verbatim>\<open>\d\<close> matches the ten ASCII digits.\<close>

definition digit_class :: "char list" where
  "digit_class = ''0123456789''"

text \<open>\<^verbatim>\<open>f_re = "([+-]?\d*\.\d+)(?![-+0-9\.])"\<close>\<close>

definition f_re :: "re_item list" where
  "f_re = [GOpen, Opt ''+-'', Star digit_class, Lit CHR ''.'', Plus digit_class, GClose,
           NotAhead ''-+0123456789.'']"

definition d_re :: "re_item list" where
  "d_re = [GOpen, Plus digit_class, GClose]"

definition complete_status_re_prog :: "re_item list" where
  "complete_status_re_prog =
     map Lit ''AV'' @ f_re @ map Lit ''SV'' @ f_re @ map Lit ''AA'' @ f_re @
     map Lit ''SA'' @ f_re @ map Lit ''OS'' @ d_re @ map Lit ''AL'' @ d_re @
     map Lit ''PS'' @ d_re"

section \<open>Parsing the complete status\<close>

definition is_digit :: "char \<Rightarrow> bool" where
  "is_digit c = (c \<in> set digit_class)"

definition digit_val :: "char \<Rightarrow> nat" where
  "digit_val c = of_char c - 48"

definition nat_of_digits :: "string \<Rightarrow> nat" where
  "nat_of_digits s = foldl (\<lambda>a c. 10 * a + digit_val c) 0 s"

text \<open>
  The float with sign \<open>neg\<close> and magnitude \<open>n / 10 ^ k\<close>. \<^verbatim>\<open>float\<close> rounds this
  decimal to the nearest binary64 value; the model keeps the decimal itself.
\<close>

definition mk_float :: "bool \<Rightarrow> nat \<Rightarrow> nat \<Rightarrow> pyfloat" where
  "mk_float neg n k =
     (if n = 0 then (if neg then NegZero else Flt 0)
      else if neg then Flt (- (of_nat n / 10 ^ k))
      else Flt (of_nat n / 10 ^ k))"

text \<open>
  \<^verbatim>\<open>float(s)\<close> on a plain decimal numeral: an optional sign, digits, and optionally a
  point and further digits, with a digit somewhere. The model answers ValueError for every
  other string; Python's \<^verbatim>\<open>float\<close> reads further spellings (exponents, \<^verbatim>\<open>inf\<close>,
  \<^verbatim>\<open>nan\<close>, underscores, surrounding blanks), none of which a group of the status
  pattern can hold.
\<close>

definition py_float :: "string \<Rightarrow> error + pyfloat" where
  "py_float s =
     (let neg = (case s of [] \<Rightarrow> False | c # r \<Rightarrow> c = CHR ''-'');
          body = (case s of [] \<Rightarrow> [] | c # r \<Rightarrow> if c = CHR ''+'' \<or> c = CHR ''-'' then r else s);
          ip = takeWhile is_digit body;
          rest = dropWhile is_digit body
      in case rest of
           [] \<Rightarrow> if ip = [] then Inl ValueError else Inr (mk_float neg (nat_of_digits ip) 0)
         | c # fp \<Rightarrow>
             if c = CHR ''.'' \<and> list_all is_digit fp \<and> \<not> (ip = [] \<and> fp = [])
             then Inr (mk_float neg (nat_of_digits (ip @ fp)) (length fp))
             else Inl ValueError)"

text \<open>
  \<^verbatim>\<open>bool(int(reg[i]))\<close>: IndexError beyond the end of the register string, ValueError
  on a character that is not a digit.
\<close>

definition flag_at :: "string \<Rightarrow> nat \<Rightarrow> error + bool" where
  "flag_at reg i =
     (if i < length reg
      then (if is_digit (reg ! i) then Inr (digit_val (reg ! i) \<noteq> 0) else Inl ValueError)
      else Inl IndexError)"

text \<open>
  The assignments of \<^verbatim>\<open>get_complete_status\<close> run one after the other; when one of
  them raises, the assignments before it have already changed the object.
\<close>

type_synonym step = "zup \<Rightarrow> error + zup"

fun run_steps :: "step list \<Rightarrow> zup \<Rightarrow> error option \<times> zup" where
  "run_steps [] s = (None, s)"
| "run_steps (f # fs) s =
     (case f s of
        Inl e \<Rightarrow> (Some e, s)
      | Inr s' \<Rightarrow> run_steps fs s')"

definition set_float :: "((pyfloat option \<Rightarrow> pyfloat option) \<Rightarrow> zup \<Rightarrow> zup) \<Rightarrow> string \<Rightarrow> step" where
  "set_float upd str s =
     (case py_float str of
        Inl e \<Rightarrow> Inl e
      | Inr v \<Rightarrow> Inr (upd (\<lambda>old. Some v) s))"

definition set_reg :: "((string option \<Rightarrow> string option) \<Rightarrow> zup \<Rightarrow> zup) \<Rightarrow> string \<Rightarrow> step" where
  "set_reg upd str s = Inr (upd (\<lambda>old. Some str) s)"

definition set_flag :: "((bool option \<Rightarrow> bool option) \<Rightarrow> zup \<Rightarrow> zup) \<Rightarrow> string \<Rightarrow> nat \<Rightarrow> step" where
  "set_flag upd reg i s =
     (case flag_at reg i of
        Inl e \<Rightarrow> Inl e
      | Inr b \<Rightarrow> Inr (upd (\<lambda>old. Some b) s))"

definition status_steps ::
  "string \<Rightarrow> string \<Rightarrow> string \<Rightarrow> string \<Rightarrow> string \<Rightarrow> string \<Rightarrow> string \<Rightarrow> step list" where
  "status_steps av sv aa sa os al ps =
     [set_float voltage_actual_update av,
      set_float voltage_setp_update sv,
      set_float current_actual_update aa,
      set_float current_setp_update sa,
      set_reg operational_status_register_update os,
      set_reg alarm_status_register_update al,
      set_reg programming_status_register_update ps,
      set_flag cc_cv_update os 0,
      set_flag foldback_armed_update os 1,
      set_flag auto_restart_mode_update os 2,
      set_flag output_on_update os 3,
      set_flag foldback_srq_update os 4,
      set_flag over_voltage_srq_update os 5,
      set_flag over_temp_srq_update os 6,
      set_flag alarm_active_update os 7,
      set_flag alarm_ovp_update al 0,
      set_flag alarm_otp_update al 1,
      set_flag alarm_ac_fail_update al 2,
      set_flag alarm_foldback_update al 3,
      set_flag alarm_prog_update al 4,
      set_flag prog_err_wrong_command_update ps 1,
      set_flag prog_err_buffer_overflow_update ps 2,
      set_flag prog_err_wrong_voltage_update ps 3,
      set_flag prog_err_wrong_current_update ps 4]"

text \<open>The tuple that \<^verbatim>\<open>get_complete_status\<close> returns, read back from the object.\<close>

type_synonym status_tuple =
  "pyfloat option \<times> pyfloat option \<times> pyfloat option \<times> pyfloat option \<times>
   string option \<times> string option \<times> string option"

definition status_of :: "zup \<Rightarrow> status_tuple" where
  "status_of s =
     (voltage_actual s, voltage_setp s, current_actual s, current_setp s,
      operational_status_register s, alarm_status_register s,
      programming_status_register s)"

text \<open>
  \<^verbatim>\<open>LambdaZup.get_complete_status\<close>. No match leaves \<^verbatim>\<open>findall\<close> with the empty
  list, and \<^verbatim>\<open>[0]\<close> raises IndexError before the first assignment. The pattern has
  seven groups, so the unpacking into seven names cannot fail on a match.
\<close>

definition get_complete_status :: "zup \<Rightarrow> (error + status_tuple) \<times> zup" where
  "get_complete_status self =
     (case zup_ask self '':STT?;'' of
        (Inl e, s) \<Rightarrow> (Inl e, s)
      | (Inr out, s) \<Rightarrow>
          (case re_search complete_status_re_prog out of
             None \<Rightarrow> (Inl IndexError, s)
           | Some [av, sv, aa, sa, os, al, ps] \<Rightarrow>
               (case run_steps (status_steps av sv aa sa os al ps) s of
                  (Some e, s') \<Rightarrow> (Inl e, s')
                | (None, s') \<Rightarrow> (Inr (status_of s'), s'))
           | Some gs \<Rightarrow> (Inl ValueError, s)))"

section \<open>Notions used in the statements\<close>

text \<open>A 6 V unit at address 1, freshly connected, with nothing written or received yet.\<close>

definition example_unit :: zup where
  "example_unit =
     \<lparr>address = 1, always_send_address = True,
      ser = \<lparr>written = [], incoming = []\<rparr>,
      max_voltage = 6, max_current = Flt 33,
      voltage_actual = None, voltage_setp = None, current_actual = None, current_setp = None,
      operational_status_register = None, alarm_status_register = None,
      programming_status_register = None,
      cc_cv = None, foldback_armed = None, auto_restart_mode = None, output_on = None,
      foldback_srq = None, over_voltage_srq = None, over_temp_srq = None, alarm_active = None,
      alarm_ovp = None, alarm_otp = None, alarm_ac_fail = None, alarm_foldback = None,
      alarm_prog = None, prog_err_wrong_command = None, prog_err_buffer_overflow = None,
      prog_err_wrong_voltage = None, prog_err_wrong_current = None\<rparr>"

text \<open>The framing of a command: it starts with a colon and ends with a semicolon.\<close>

definition framed :: "string \<Rightarrow> bool" where
  "framed cmd = (case cmd of [] \<Rightarrow> False | c # cs \<Rightarrow> c = CHR '':'' \<and> last cmd = CHR '';'')"

text \<open>What \<^verbatim>\<open>_write\<close> sends ahead of a command: the address selection, when enabled.\<close>

definition adr_prefix :: "zup \<Rightarrow> string list" where
  "adr_prefix self =
     (if always_send_address self then ['':ADR'' @ fmt_02i (address self) @ '';''] else [])"

text \<open>
  A string of one or more digits, a point, and exactly \<open>p\<close> digits; \<open>unsigned\<close> drops
  a leading minus sign.
\<close>

definition decimal_shaped :: "nat \<Rightarrow> string \<Rightarrow> bool" where
  "decimal_shaped p s =
     (takeWhile is_digit s \<noteq> [] \<and>
      (case dropWhile is_digit s of
         [] \<Rightarrow> False
       | c # fp \<Rightarrow> c = CHR ''.'' \<and> list_all is_digit fp \<and> length fp = p))"

definition unsigned :: "string \<Rightarrow> string" where
  "unsigned s = (case s of [] \<Rightarrow> [] | c # r \<Rightarrow> if c = CHR ''-'' then r else s)"

text \<open>The reply that the next query will read, stripped as \<^verbatim>\<open>_ask\<close> strips it.\<close>

definition next_reply :: "zup \<Rightarrow> string" where
  "next_reply self = rstrip (fst (ser_readline (ser self)))"

text \<open>The state of the driver after a query \<open>cmd\<close> has been sent and its reply read.\<close>

definition after_ask :: "zup \<Rightarrow> string \<Rightarrow> zup" where
  "after_ask self cmd =
     self\<lparr>ser := (ser self)\<lparr>written := written (ser self) @ adr_prefix self @ [cmd],
                             incoming := tl (incoming (ser self))\<rparr>\<rparr>"

text \<open>The decoded flags of the three registers, in the order of their bits.\<close>

definition operational_flags :: "zup \<Rightarrow> bool option list" where
  "operational_flags s =
     [cc_cv s, foldback_armed s, auto_restart_mode s, output_on s,
      foldback_srq s, over_voltage_srq s, over_temp_srq s, alarm_active s]"

definition alarm_flags :: "zup \<Rightarrow> bool option list" where
  "alarm_flags s = [alarm_ovp s, alarm_otp s, alarm_ac_fail s, alarm_foldback s, alarm_prog s]"

definition prog_err_flags :: "zup \<Rightarrow> bool option list" where
  "prog_err_flags s =
     [prog_err_wrong_command s, prog_err_buffer_overflow s,
      prog_err_wrong_voltage s, prog_err_wrong_current s]"

text \<open>The example reply of the device manual, quoted in the docstring.\<close>

definition manual_reply :: string where
  "manual_reply = ''AV5.010SV5.010AA00.00SA24.31OS00010000AL00000PS00000''"

text \<open>
  The fields of the status pattern as the specification words them. A float field
  \<open><f>\<close> is an optional sign, digits, a point, and one or more digits; a register
  field \<open><d+>\<close> is one or more digits.
\<close>

definition float_shaped :: "string \<Rightarrow> bool" where
  "float_shaped f =
     (let body = (case f of [] \<Rightarrow> [] | c # r \<Rightarrow> if c = CHR ''+'' \<or> c = CHR ''-'' then r else f)
      in case dropWhile is_digit body of
           [] \<Rightarrow> False
         | c # fp \<Rightarrow> c = CHR ''.'' \<and> fp \<noteq> [] \<and> list_all is_digit fp)"

definition digits_shaped :: "string \<Rightarrow> bool" where
  "digits_shaped d = (d \<noteq> [] \<and> list_all is_digit d)"

text \<open>
  The fixed sequence \<^verbatim>\<open>AV<f>SV<f>AA<f>SA<f>OS<d+>AL<d+>PS<d+>\<close> occurs in a reply,
  with the given fields.
\<close>

definition status_pattern_fields :: "string \<Rightarrow> string list \<Rightarrow> bool" where
  "status_pattern_fields out gs =
     (\<exists>pre av sv aa sa os al ps post.
        gs = [av, sv, aa, sa, os, al, ps] \<and>
        out = pre @ ''AV'' @ av @ ''SV'' @ sv @ ''AA'' @ aa @ ''SA'' @ sa @
              ''OS'' @ os @ ''AL'' @ al @ ''PS'' @ ps @ post \<and>
        float_shaped av \<and> float_shaped sv \<and> float_shaped aa \<and> float_shaped sa \<and>
        digits_shaped os \<and> digits_shaped al \<and> digits_shaped ps)"

definition has_status_pattern :: "string \<Rightarrow> bool" where
  "has_status_pattern out = (\<exists>gs. status_pattern_fields out gs)"

section \<open>Framing of commands\<close>

lemma zup_write_framed:
  "framed cmd \<Longrightarrow>
   zup_write self cmd =
     (Inr (), self\<lparr>ser := (ser self)\<lparr>written := written (ser self) @ adr_prefix self @ [cmd]\<rparr>\<rparr>)"
  by (cases cmd) (auto simp: framed_def zup_write_def ser_write_def adr_prefix_def Let_def)

lemma zup_ask_framed:
  "framed cmd \<Longrightarrow>
   zup_ask self cmd =
     (Inr (rstrip (fst (ser_readline (ser self)))),
      self\<lparr>ser := (ser self)\<lparr>written := written (ser self) @ adr_prefix self @ [cmd],
                              incoming := tl (incoming (ser self))\<rparr>\<rparr>)"
  by (cases "incoming (ser self)")
     (auto simp: zup_ask_def zup_write_framed ser_readline_def)

text \<open>
  C8. \<^verbatim>\<open>_write\<close> checks the framing before it writes anything: a command that does not
  start with a colon and end with a semicolon makes the call fail (AssertionError, or
  IndexError on the empty string), and the driver and its transport are left exactly as
  they were, so nothing has been transmitted.
\<close>

theorem zup_write_unframed:
  "\<not> framed cmd \<Longrightarrow>
   zup_write self cmd = (Inl (if cmd = [] then IndexError else AssertionError), self)"
  by (cases cmd) (auto simp: framed_def zup_write_def)

theorem zup_write_unframed_witness:
  "\<not> framed ''VOL5.000'' \<and>
   zup_write example_unit ''VOL5.000'' = (Inl AssertionError, example_unit)"
  using zup_write_unframed [of "''VOL5.000''" example_unit] by (simp add: framed_def)

section \<open>Reading the output state\<close>

text \<open>
  C6. \<^verbatim>\<open>get_output\<close> on a reply that is \<^verbatim>\<open>OT1\<close> after stripping returns true, on
  \<^verbatim>\<open>OT0\<close> false; every other reply raises (ValueError behind the tag \<^verbatim>\<open>OT\<close>,
  AssertionError on another tag) and leaves the stored output state as it was.
\<close>

theorem get_output_reply:
  assumes "incoming (ser self) = reply # rest"
  shows "fst (get_output self) =
           (if rstrip reply = ''OT1'' then Inr True
            else if rstrip reply = ''OT0'' then Inr False
            else if take 2 (rstrip reply) = ''OT'' then Inl ValueError
            else Inl AssertionError)
         \<and> output_on (snd (get_output self)) =
           (if rstrip reply = ''OT1'' then Some True
            else if rstrip reply = ''OT0'' then Some False
            else output_on self)"
  using assms
  by (simp add: get_output_def zup_ask_framed framed_def ser_readline_def)

lemma rstrip_OT2: "rstrip ''OT2'' = ''OT2''"
  by code_simp

theorem get_output_reply_witness:
  "incoming (ser (example_unit\<lparr>ser := \<lparr>written = [], incoming = [''OT2'']\<rparr>\<rparr>)) = ''OT2'' # [] \<and>
   fst (get_output (example_unit\<lparr>ser := \<lparr>written = [], incoming = [''OT2'']\<rparr>\<rparr>)) = Inl ValueError \<and>
   output_on (snd (get_output (example_unit\<lparr>ser := \<lparr>written = [], incoming = [''OT2'']\<rparr>\<rparr>))) = None"
  using get_output_reply [of "example_unit\<lparr>ser := \<lparr>written = [], incoming = [''OT2'']\<rparr>\<rparr>" "''OT2''" "[]"]
  by (simp add: rstrip_OT2 example_unit_def)

section \<open>Selecting an address\<close>

lemma example_unit_fields:
  "address example_unit = 1"
  "always_send_address example_unit"
  "ser example_unit = \<lparr>written = [], incoming = []\<rparr>"
  "max_voltage example_unit = 6"
  by (simp_all add: example_unit_def)

lemma fmt_02i_1: "fmt_02i 1 = ''01''"
  by code_simp

lemma fmt_02i_31: "fmt_02i 31 = ''31''"
  by code_simp

lemma adr_prefix_example: "adr_prefix example_unit = ['':ADR01;'']"
  by (simp add: adr_prefix_def example_unit_fields fmt_02i_1)

text \<open>
  For an argument other than 0 the range check decides: addresses 1 to 31 are sent and
  remembered, every other address raises before anything is written.
\<close>

lemma set_address_nonzero:
  "a \<noteq> 0 \<Longrightarrow>
   set_address self (Some a) =
     (if 0 < a \<and> a < 32
      then (Inr a, self\<lparr>ser := (ser self)\<lparr>written := written (ser self) @ adr_prefix self @
                                               ['':ADR'' @ fmt_02i a @ '';'']\<rparr>,
                        address := a\<rparr>)
      else (Inl AssertionError, self))"
  by (simp add: set_address_def zup_write_framed framed_def)

lemma set_address_bounds:
  "set_address example_unit (Some 32) = (Inl AssertionError, example_unit)"
  "fst (set_address example_unit (Some 1)) = Inr 1"
  "written (ser (snd (set_address example_unit (Some 1)))) = ['':ADR01;'', '':ADR01;'']"
  "address (snd (set_address example_unit (Some 1))) = 1"
  "fst (set_address example_unit (Some 31)) = Inr 31"
  "written (ser (snd (set_address example_unit (Some 31)))) = ['':ADR01;'', '':ADR31;'']"
  "address (snd (set_address example_unit (Some 31))) = 31"
  by (simp_all add: set_address_nonzero adr_prefix_example fmt_02i_1 fmt_02i_31
        example_unit_fields)

text \<open>
  C3. \<^verbatim>\<open>set_address(0)\<close> is not rejected: \<^verbatim>\<open>not adr\<close> holds for 0 as it does for
  \<^verbatim>\<open>None\<close>, so the remembered address takes the place of the argument before the
  assertion \<^verbatim>\<open>0 < adr < 32\<close> is reached. On a driver at address 1 the call returns 1
  and writes the address selection \<^verbatim>\<open>:ADR01;\<close> (twice, once as the prefix of
  \<^verbatim>\<open>_write\<close>).
\<close>

theorem set_address_zero:
  "fst (set_address example_unit (Some 0)) = Inr 1 \<and>
   written (ser (snd (set_address example_unit (Some 0)))) = ['':ADR01;'', '':ADR01;'']"
  by (simp add: set_address_def zup_write_framed framed_def adr_prefix_example fmt_02i_1
        example_unit_fields)

section \<open>Foldback protection\<close>

lemma float_eq_Flt: "float_eq f (Flt y) = (f = Flt y \<or> (f = NegZero \<and> y = 0))"
  by (cases f) auto

lemma py_in_arm:
  "py_in fld [PyBool True, PyInt 1, PyStr ''arm''] =
     (fld = PyStr ''arm'' \<or> num_of fld = Some (Flt 1))"
  by (cases fld) (auto simp: py_in_def py_eq_def float_eq_Flt)

lemma py_in_release:
  "py_in fld [PyBool False, PyInt 0, PyStr ''release''] =
     (fld = PyStr ''release'' \<or> num_of fld = Some (Flt 0) \<or> num_of fld = Some NegZero)"
  by (cases fld) (auto simp: py_in_def py_eq_def float_eq_Flt)

lemma py_in_cancel:
  "py_in fld [PyInt 2, PyStr ''cancel''] =
     (fld = PyStr ''cancel'' \<or> num_of fld = Some (Flt 2))"
  by (cases fld) (auto simp: py_in_def py_eq_def float_eq_Flt)

text \<open>
  C4, as the code has it. \<^verbatim>\<open>set_foldback_protection\<close> sends \<^verbatim>\<open>:FLD1;\<close> for the
  string \<^verbatim>\<open>arm\<close> and for every number equal to 1 (\<^verbatim>\<open>True\<close>, \<^verbatim>\<open>1\<close>,
  \<^verbatim>\<open>1.0\<close>), \<^verbatim>\<open>:FLD0;\<close> for \<^verbatim>\<open>release\<close> and every number equal to 0,
  \<^verbatim>\<open>:FLD2;\<close> for \<^verbatim>\<open>cancel\<close> and every number equal to 2; for every other value
  nothing is written to the transport.
\<close>

theorem set_foldback_protection_modes:
  "written (ser (snd (set_foldback_protection self fld))) =
     written (ser self) @
     (if fld = PyStr ''arm'' \<or> num_of fld = Some (Flt 1) then adr_prefix self @ ['':FLD1;'']
      else if fld = PyStr ''release'' \<or> num_of fld = Some (Flt 0) \<or> num_of fld = Some NegZero
        then adr_prefix self @ ['':FLD0;'']
      else if fld = PyStr ''cancel'' \<or> num_of fld = Some (Flt 2) then adr_prefix self @ ['':FLD2;'']
      else [])"
  by (simp add: set_foldback_protection_def py_in_arm py_in_release py_in_cancel
        zup_write_framed framed_def)

theorem set_foldback_protection_modes_witness:
  "written (ser (snd (set_foldback_protection example_unit (PyStr ''cancel'')))) =
     ['':ADR01;'', '':FLD2;'']"
  using set_foldback_protection_modes [of example_unit "PyStr ''cancel''"]
  by (simp add: adr_prefix_example example_unit_fields)

text \<open>
  The claim C4 as stated fails: the integer 1 is none of the three mode names and is
  accepted and transmitted, and a string that names no mode is not rejected, the call
  returns normally.
\<close>

theorem set_foldback_protection_counterexample:
  "PyInt 1 \<notin> {PyStr ''arm'', PyStr ''release'', PyStr ''cancel''} \<and>
   fst (set_foldback_protection example_unit (PyInt 1)) = Inr () \<and>
   written (ser (snd (set_foldback_protection example_unit (PyInt 1)))) = ['':ADR01;'', '':FLD1;''] \<and>
   set_foldback_protection example_unit (PyStr ''bogus'') = (Inr (), example_unit)"
  by (simp add: set_foldback_protection_def py_in_arm py_in_release py_in_cancel
        zup_write_framed framed_def adr_prefix_example example_unit_fields)

section \<open>Rendering of numbers\<close>

lemma digit_char_is_digit: "d < 10 \<Longrightarrow> is_digit (digit_char d)"
proof -
  assume "d < 10"
  then have "d \<in> {0,1,2,3,4,5,6,7,8,9}" by auto
  then show ?thesis
    by (auto simp: is_digit_def digit_char_def digit_class_def)
qed

lemma digits_of_nat_all: "list_all is_digit (digits_of_nat n)"
proof (induction n rule: digits_of_nat.induct)
  case (1 n)
  show ?case
  proof (cases "n < 10")
    case True
    then show ?thesis by (simp add: digits_of_nat.simps [of n] digit_char_is_digit)
  next
    case False
    with 1 show ?thesis
      by (simp add: digits_of_nat.simps [of n] digit_char_is_digit)
  qed
qed

lemma digits_of_nat_nonempty: "digits_of_nat n \<noteq> []"
  by (simp add: digits_of_nat.simps [of n])

lemma length_digits_of_nat: "n < 10 ^ k \<Longrightarrow> 0 < k \<Longrightarrow> length (digits_of_nat n) \<le> k"
proof (induction n arbitrary: k rule: digits_of_nat.induct)
  case (1 n)
  show ?case
  proof (cases "n < 10")
    case True
    with 1 show ?thesis by (simp add: digits_of_nat.simps [of n] Suc_leI)
  next
    case False
    obtain j where k: "k = Suc j" using 1(3) by (cases k) auto
    from False 1(2) have "0 < j" unfolding k by (cases j) auto
    moreover from 1(2) have "n div 10 < 10 ^ j" unfolding k
      by (simp add: less_mult_imp_div_less mult.commute)
    ultimately have "length (digits_of_nat (n div 10)) \<le> j"
      using 1(1) [OF False] by blast
    with False show ?thesis by (simp add: digits_of_nat.simps [of n] k)
  qed
qed

lemma length_frac_digits: "m < 10 ^ p \<Longrightarrow> 0 < p \<Longrightarrow> length (frac_digits p m) = p"
  using length_digits_of_nat [of m p] by (simp add: frac_digits_def)

lemma frac_digits_all: "list_all is_digit (frac_digits p m)"
proof -
  have "is_digit CHR ''0''" by (simp add: is_digit_def digit_class_def)
  then show ?thesis
    using digits_of_nat_all [of m] by (auto simp: frac_digits_def list_all_iff)
qed

lemma round_half_even_le:
  assumes "0 \<le> x" "x \<le> of_nat m"
  shows "round_half_even x \<le> m"
proof -
  have fl: "nat \<lfloor>x\<rfloor> \<le> m" using assms by (simp add: floor_le_iff le_nat_floor nat_le_iff)
  show ?thesis
  proof (cases "x = of_int \<lfloor>x\<rfloor>")
    case True
    then have "x - of_int \<lfloor>x\<rfloor> = 0" by simp
    then show ?thesis using fl by (simp add: round_half_even_def Let_def)
  next
    case False
    then have "of_int \<lfloor>x\<rfloor> < x" using of_int_floor_le [of x] by linarith
    then have "of_int \<lfloor>x\<rfloor> < (of_nat m :: rat)" using assms(2) by simp
    then have "\<lfloor>x\<rfloor> < int m" by (metis of_int_less_iff of_int_of_nat_eq)
    moreover have "0 \<le> \<lfloor>x\<rfloor>" using assms(1) by simp
    ultimately have "nat \<lfloor>x\<rfloor> + 1 \<le> m" by linarith
    then show ?thesis using fl by (simp add: round_half_even_def Let_def)
  qed
qed



lemma not_digit_point: "\<not> is_digit CHR ''.''"
  by (simp add: is_digit_def digit_class_def)

lemma is_digit_zero: "is_digit CHR ''0''"
  by (simp add: is_digit_def digit_class_def)

lemma decimal_shapedI:
  assumes "list_all is_digit ip" "ip \<noteq> []" "list_all is_digit fp" "length fp = p"
  shows "decimal_shaped p (ip @ CHR ''.'' # fp)"
proof -
  have "takeWhile is_digit (ip @ CHR ''.'' # fp) = ip"
    using assms(1) by (simp add: takeWhile_append2 list_all_iff not_digit_point)
  moreover have "dropWhile is_digit (ip @ CHR ''.'' # fp) = CHR ''.'' # fp"
    using assms(1) by (simp add: dropWhile_append2 list_all_iff not_digit_point)
  ultimately show ?thesis using assms by (simp add: decimal_shaped_def)
qed

lemma fixed_digits_shape:
  assumes "0 < p"
  shows "decimal_shaped p (replicate k CHR ''0'' @ fixed_digits p x)"
proof -
  define n where "n = round_half_even (x * 10 ^ p)"
  have fd: "fixed_digits p x = digits_of_nat (n div 10 ^ p) @ CHR ''.'' # frac_digits p (n mod 10 ^ p)"
    using assms by (simp add: fixed_digits_def n_def Let_def)
  have "list_all is_digit (replicate k CHR ''0'' @ digits_of_nat (n div 10 ^ p))"
    using digits_of_nat_all [of "n div 10 ^ p"] by (auto simp: list_all_iff is_digit_zero)
  moreover have "replicate k CHR ''0'' @ digits_of_nat (n div 10 ^ p) \<noteq> []"
    by (simp add: digits_of_nat_nonempty)
  moreover have "length (frac_digits p (n mod 10 ^ p)) = p"
    using assms by (simp add: length_frac_digits)
  ultimately have "decimal_shaped p ((replicate k CHR ''0'' @ digits_of_nat (n div 10 ^ p)) @
      CHR ''.'' # frac_digits p (n mod 10 ^ p))"
    by (intro decimal_shapedI frac_digits_all)
  then show ?thesis by (simp add: fd)
qed

lemma length_fixed_digits:
  assumes "0 \<le> x" "x \<le> of_nat M" "M < 10 ^ k" "0 < k" "0 < p"
  shows "length (fixed_digits p x) \<le> k + 1 + p"
proof -
  define n where "n = round_half_even (x * 10 ^ p)"
  have fd: "fixed_digits p x = digits_of_nat (n div 10 ^ p) @ CHR ''.'' # frac_digits p (n mod 10 ^ p)"
    using assms by (simp add: fixed_digits_def n_def Let_def)
  have "x * 10 ^ p \<le> of_nat (M * 10 ^ p)" using assms(2) by simp
  moreover have "0 \<le> x * 10 ^ p" using assms(1) by simp
  ultimately have "n \<le> M * 10 ^ p" unfolding n_def by (rule round_half_even_le [rotated])
  then have "n div 10 ^ p \<le> M" by (metis div_le_mono div_mult_self_is_m zero_less_numeral zero_less_power)
  then have "n div 10 ^ p < 10 ^ k" using assms(3) by simp
  then have "length (digits_of_nat (n div 10 ^ p)) \<le> k" using assms(4) by (rule length_digits_of_nat)
  moreover have "length (frac_digits p (n mod 10 ^ p)) = p"
    using assms by (simp add: length_frac_digits)
  ultimately show ?thesis by (simp add: fd)
qed

lemma format_f_zero_padded:
  assumes "0 \<le> x" "x \<le> of_nat M" "M < 10 ^ k" "0 < k" "0 < p" "k + 1 + p \<le> w"
  shows "length (format_f \<lparr>zero_flag = True, width = w, prec = p\<rparr> (Flt x)) = w"
    and "decimal_shaped p (format_f \<lparr>zero_flag = True, width = w, prec = p\<rparr> (Flt x))"
proof -
  have ab: "\<bar>x\<bar> = x" using assms(1) by simp
  have len: "length (fixed_digits p x) \<le> w"
    using length_fixed_digits [OF assms(1-5)] assms(6) by simp
  have eq: "format_f \<lparr>zero_flag = True, width = w, prec = p\<rparr> (Flt x) =
      replicate (w - length (fixed_digits p x)) CHR ''0'' @ fixed_digits p x"
    using assms(1) by (simp add: format_f_def float_sign_def Let_def ab)
  show "length (format_f \<lparr>zero_flag = True, width = w, prec = p\<rparr> (Flt x)) = w"
    using len by (simp add: eq)
  show "decimal_shaped p (format_f \<lparr>zero_flag = True, width = w, prec = p\<rparr> (Flt x))"
    unfolding eq using assms(5) by (rule fixed_digits_shape)
qed

section \<open>Setting the voltage\<close>

lemma v_format_strs_cases:
  assumes "v_format_strs m = Some fs"
  shows "(m = 6 \<and> fs = \<lparr>zero_flag = True, width = 5, prec = 3\<rparr>) \<or>
         (m = 10 \<and> fs = \<lparr>zero_flag = True, width = 6, prec = 3\<rparr>) \<or>
         (m = 20 \<and> fs = \<lparr>zero_flag = True, width = 6, prec = 3\<rparr>) \<or>
         (m = 36 \<and> fs = \<lparr>zero_flag = True, width = 5, prec = 2\<rparr>) \<or>
         (m = 60 \<and> fs = \<lparr>zero_flag = True, width = 5, prec = 2\<rparr>) \<or>
         (m = 80 \<and> fs = \<lparr>zero_flag = True, width = 5, prec = 2\<rparr>) \<or>
         (m = 120 \<and> fs = \<lparr>zero_flag = True, width = 6, prec = 2\<rparr>)"
  using assms by (auto simp: v_format_strs_def split: if_splits)

lemma v_format_strs_dom: "dom v_format_strs = {6, 10, 20, 36, 60, 80, 120}"
  by (auto simp: v_format_strs_def split: if_splits)

lemma format_f_table:
  assumes "v_format_strs m = Some fs" "0 \<le> x" "x \<le> of_int m"
  shows "length (format_f fs (Flt x)) = width fs"
    and "decimal_shaped (prec fs) (format_f fs (Flt x))"
proof -
  have "length (format_f fs (Flt x)) = width fs \<and> decimal_shaped (prec fs) (format_f fs (Flt x))"
    using v_format_strs_cases [OF assms(1)]
  proof (elim disjE conjE)
    assume "m = 6" "fs = \<lparr>zero_flag = True, width = 5, prec = 3\<rparr>"
    then show ?thesis
      using format_f_zero_padded [of x 6 1 3 5] assms(2,3) by simp
  next
    assume "m = 10" "fs = \<lparr>zero_flag = True, width = 6, prec = 3\<rparr>"
    then show ?thesis
      using format_f_zero_padded [of x 10 2 3 6] assms(2,3) by simp
  next
    assume "m = 20" "fs = \<lparr>zero_flag = True, width = 6, prec = 3\<rparr>"
    then show ?thesis
      using format_f_zero_padded [of x 20 2 3 6] assms(2,3) by simp
  next
    assume "m = 36" "fs = \<lparr>zero_flag = True, width = 5, prec = 2\<rparr>"
    then show ?thesis
      using format_f_zero_padded [of x 36 2 2 5] assms(2,3) by simp
  next
    assume "m = 60" "fs = \<lparr>zero_flag = True, width = 5, prec = 2\<rparr>"
    then show ?thesis
      using format_f_zero_padded [of x 60 2 2 5] assms(2,3) by simp
  next
    assume "m = 80" "fs = \<lparr>zero_flag = True, width = 5, prec = 2\<rparr>"
    then show ?thesis
      using format_f_zero_padded [of x 80 2 2 5] assms(2,3) by simp
  next
    assume "m = 120" "fs = \<lparr>zero_flag = True, width = 6, prec = 2\<rparr>"
    then show ?thesis
      using format_f_zero_padded [of x 120 3 2 6] assms(2,3) by simp
  qed
  then show "length (format_f fs (Flt x)) = width fs"
    and "decimal_shaped (prec fs) (format_f fs (Flt x))" by simp_all
qed

text \<open>What passes the range check: a finite number between the bounds, or negative zero.\<close>

lemma assert_in_range_Inr:
  "assert_in_range volt hi = Inr v \<longleftrightarrow>
     num_of volt = Some v \<and> ((\<exists>x. v = Flt x \<and> 0 \<le> x \<and> x \<le> of_int hi) \<or> (v = NegZero \<and> 0 \<le> hi))"
proof (cases "num_of volt")
  case None
  then show ?thesis by (simp add: assert_in_range_def)
next
  case (Some w)
  then show ?thesis by (cases w) (auto simp: assert_in_range_def)
qed

text \<open>
  A finite value within the range, on a unit whose rated voltage is in the table: the
  command is \<^verbatim>\<open>:VOL\<close>, the value in the format of the model, and a semicolon; the
  rendered value has exactly the width of the format and its number of decimals.
\<close>

lemma set_voltage_in_range:
  assumes "v_format_strs (max_voltage self) = Some fs"
    and "num_of volt = Some (Flt x)" "0 \<le> x" "x \<le> of_int (max_voltage self)"
  shows "set_voltage self volt =
           (Inr (), self\<lparr>ser := (ser self)\<lparr>written := written (ser self) @ adr_prefix self @
                                      ['':VOL'' @ format_f fs (Flt x) @ '';'']\<rparr>\<rparr>)"
    and "length (format_f fs (Flt x)) = width fs"
    and "decimal_shaped (prec fs) (format_f fs (Flt x))"
proof -
  have "assert_in_range volt (max_voltage self) = Inr (Flt x)"
    using assms(2-4) by (simp add: assert_in_range_Inr)
  then show "set_voltage self volt =
           (Inr (), self\<lparr>ser := (ser self)\<lparr>written := written (ser self) @ adr_prefix self @
                                      ['':VOL'' @ format_f fs (Flt x) @ '';'']\<rparr>\<rparr>)"
    using assms(1) by (simp add: set_voltage_def zup_write_framed framed_def)
  show "length (format_f fs (Flt x)) = width fs"
    and "decimal_shaped (prec fs) (format_f fs (Flt x))"
    using format_f_table [OF assms(1,3,4)] by simp_all
qed

text \<open>Every other value, negative zero apart, is rejected and nothing is written.\<close>

lemma set_voltage_rejects:
  assumes "\<not> (num_of volt = Some NegZero \<and> 0 \<le> max_voltage self)"
    and "\<not> (\<exists>x. num_of volt = Some (Flt x) \<and> 0 \<le> x \<and> x \<le> of_int (max_voltage self))"
  shows "\<exists>e. set_voltage self volt = (Inl e, self)"
proof (cases "assert_in_range volt (max_voltage self)")
  case (Inl e)
  then show ?thesis by (simp add: set_voltage_def)
next
  case (Inr v)
  then show ?thesis using assms by (auto simp: assert_in_range_Inr)
qed

lemma format_f_negative_zero: "format_f \<lparr>zero_flag = True, width = 5, prec = 3\<rparr> NegZero = ''-0.000''"
  by code_simp

lemma v_format_strs_6: "v_format_strs 6 = Some \<lparr>zero_flag = True, width = 5, prec = 3\<rparr>"
  by (simp add: v_format_strs_def)

text \<open>
  C1. The claim fails at the float negative zero, which passes the range check
  (\<^verbatim>\<open>0 <= -0.0\<close> holds): on a 6 V unit \<^verbatim>\<open>set_voltage(-0.0)\<close> writes
  \<^verbatim>\<open>:VOL-0.000;\<close>, an argument of six characters with a sign where the format of the
  model has five. For every other accepted value the command is as the claim says
  (\<open>set_voltage_in_range\<close>), and every value outside the range is rejected with nothing
  written (\<open>set_voltage_rejects\<close>).
\<close>

theorem set_voltage_negative_zero:
  "float_le (Flt 0) NegZero \<and> float_le NegZero (Flt 6) \<and>
   fst (set_voltage example_unit (PyFloat NegZero)) = Inr () \<and>
   written (ser (snd (set_voltage example_unit (PyFloat NegZero)))) = ['':ADR01;'', '':VOL-0.000;'']"
  by (simp add: set_voltage_def assert_in_range_def example_unit_fields v_format_strs_6
        format_f_negative_zero zup_write_framed framed_def adr_prefix_example)

section \<open>Protection levels\<close>

lemma unsigned_digits:
  assumes "s \<noteq> []" "is_digit (hd s)"
  shows "unsigned s = s"
proof -
  have "\<not> is_digit CHR ''-''" by (simp add: is_digit_def digit_class_def)
  then show ?thesis using assms by (cases s) (auto simp: unsigned_def)
qed

lemma fixed_digits_head:
  "fixed_digits p x \<noteq> []" "is_digit (hd (fixed_digits p x))"
proof -
  define n where "n = round_half_even (x * 10 ^ p)"
  have ne: "digits_of_nat (n div 10 ^ p) \<noteq> []" by (rule digits_of_nat_nonempty)
  have "is_digit (hd (digits_of_nat (n div 10 ^ p)))"
    using digits_of_nat_all [of "n div 10 ^ p"] ne
    by (cases "digits_of_nat (n div 10 ^ p)") simp_all
  then show "fixed_digits p x \<noteq> []" "is_digit (hd (fixed_digits p x))"
    using ne by (simp_all add: fixed_digits_def n_def [symmetric] Let_def)
qed

lemma format_f_1_2f_shape:
  assumes "v = NegZero \<or> (\<exists>x. v = Flt x \<and> 0 \<le> x)"
  shows "decimal_shaped 2 (unsigned (format_f fmt_1_2f v))"
proof -
  have shape: "decimal_shaped 2 (fixed_digits 2 y)" for y
    using fixed_digits_shape [of 2 0 y] by simp
  have pad: "Suc 0 - length (fixed_digits 2 y) = 0" for y
    using fixed_digits_head(1) [of 2 y] by (cases "fixed_digits 2 y") simp_all
  from assms show ?thesis
  proof
    assume "v = NegZero"
    then have "format_f fmt_1_2f v = CHR ''-'' # fixed_digits 2 0"
      by (simp add: format_f_def fmt_1_2f_def float_sign_def Let_def)
    then show ?thesis using shape [of 0] by (simp add: unsigned_def)
  next
    assume "\<exists>x. v = Flt x \<and> 0 \<le> x"
    then obtain x where v: "v = Flt x" and x: "0 \<le> x" by blast
    have "format_f fmt_1_2f v = fixed_digits 2 x"
      using x by (simp add: v format_f_def fmt_1_2f_def float_sign_def Let_def pad)
    then show ?thesis
      using shape [of x] unsigned_digits [OF fixed_digits_head [of 2 x]] by simp
  qed
qed

text \<open>
  C9. On a unit of any rated voltage of the table and for every value within
  \<open>[0, rated maximum]\<close>, \<^verbatim>\<open>set_over_voltage_protection\<close> and
  \<^verbatim>\<open>set_under_voltage_protection\<close> send the value rendered by the one pattern
  \<^verbatim>\<open>"%1.2f"\<close>, whatever the model: one or more digits, a point and exactly two
  decimals (behind a minus sign for negative zero). The table of set_voltage is not
  consulted.
\<close>

theorem set_voltage_protection_two_decimals:
  assumes "max_voltage self \<in> {6, 10, 20, 36, 60, 80, 120}"
    and "num_of volt = Some v"
    and "float_le (Flt 0) v" "float_le v (Flt (of_int (max_voltage self)))"
  shows "set_over_voltage_protection self volt =
           (Inr (), self\<lparr>ser := (ser self)\<lparr>written := written (ser self) @ adr_prefix self @
                                      ['':OVP'' @ format_f fmt_1_2f v @ '';'']\<rparr>\<rparr>)
       \<and> set_under_voltage_protection self volt =
           (Inr (), self\<lparr>ser := (ser self)\<lparr>written := written (ser self) @ adr_prefix self @
                                      ['':UVP'' @ format_f fmt_1_2f v @ '';'']\<rparr>\<rparr>)
       \<and> decimal_shaped 2 (unsigned (format_f fmt_1_2f v))"
proof -
  have air: "assert_in_range volt (max_voltage self) = Inr v"
    using assms(2-4) by (simp add: assert_in_range_def)
  then have "v = NegZero \<or> (\<exists>x. v = Flt x \<and> 0 \<le> x)"
    by (auto simp: assert_in_range_Inr)
  then have "decimal_shaped 2 (unsigned (format_f fmt_1_2f v))"
    by (rule format_f_1_2f_shape)
  then show ?thesis
    using air
    by (simp add: set_over_voltage_protection_def set_under_voltage_protection_def
          zup_write_framed framed_def)
qed

lemma format_f_1_2f_5: "format_f fmt_1_2f (Flt 5) = ''5.00''"
  by code_simp

theorem set_voltage_protection_two_decimals_witness:
  "max_voltage example_unit \<in> {6, 10, 20, 36, 60, 80, 120} \<and>
   num_of (PyInt 5) = Some (Flt 5) \<and>
   float_le (Flt 0) (Flt 5) \<and> float_le (Flt 5) (Flt (of_int (max_voltage example_unit))) \<and>
   fst (set_over_voltage_protection example_unit (PyInt 5)) = Inr () \<and>
   written (ser (snd (set_over_voltage_protection example_unit (PyInt 5)))) = ['':ADR01;'', '':OVP5.00;''] \<and>
   written (ser (snd (set_under_voltage_protection example_unit (PyInt 5)))) = ['':ADR01;'', '':UVP5.00;''] \<and>
   decimal_shaped 2 (unsigned ''5.00'')"
  using set_voltage_protection_two_decimals [of example_unit "PyInt 5" "Flt 5"]
  by (simp add: example_unit_fields adr_prefix_example format_f_1_2f_5)

end
